theory Spec2Isabelle
  imports Complex_Main
begin

section \<open>JavaScript numbers\<close>

text \<open>
  The animation code of the portfolio site computes with JavaScript numbers. They are
  modelled as real numbers extended by the three special values a division or a square
  root can produce: \<open>Infinity\<close>, \<open>-Infinity\<close> and \<open>NaN\<close>. Rounding and the sign of
  zero are not modelled (a zero divisor counts as \<open>+0\<close>). The operations follow
  IEEE 754 on these values: \<open>NaN\<close> is absorbing, every comparison with \<open>NaN\<close> is
  false, \<open>0 / 0\<close>, \<open>Infinity - Infinity\<close> and \<open>0 * Infinity\<close> are \<open>NaN\<close>.
\<close>

datatype jsnum = Num real | PInf | NInf | NaN

definition inf_of :: "bool \<Rightarrow> jsnum" where
  "inf_of positive = (if positive then PInf else NInf)"

fun jneg :: "jsnum \<Rightarrow> jsnum" where
  "jneg (Num a) = Num (- a)"
| "jneg PInf = NInf"
| "jneg NInf = PInf"
| "jneg NaN = NaN"

fun jadd :: "jsnum \<Rightarrow> jsnum \<Rightarrow> jsnum" where
  "jadd (Num a) (Num b) = Num (a + b)"
| "jadd NaN _ = NaN"
| "jadd _ NaN = NaN"
| "jadd PInf NInf = NaN"
| "jadd NInf PInf = NaN"
| "jadd PInf _ = PInf"
| "jadd _ PInf = PInf"
| "jadd NInf _ = NInf"
| "jadd _ NInf = NInf"

definition jsub :: "jsnum \<Rightarrow> jsnum \<Rightarrow> jsnum" where
  "jsub a b = jadd a (jneg b)"

fun jmul :: "jsnum \<Rightarrow> jsnum \<Rightarrow> jsnum" where
  "jmul (Num a) (Num b) = Num (a * b)"
| "jmul NaN _ = NaN"
| "jmul _ NaN = NaN"
| "jmul PInf (Num b) = (if b = 0 then NaN else inf_of (0 < b))"
| "jmul NInf (Num b) = (if b = 0 then NaN else inf_of (b < 0))"
| "jmul (Num a) PInf = (if a = 0 then NaN else inf_of (0 < a))"
| "jmul (Num a) NInf = (if a = 0 then NaN else inf_of (a < 0))"
| "jmul PInf PInf = PInf"
| "jmul PInf NInf = NInf"
| "jmul NInf PInf = NInf"
| "jmul NInf NInf = PInf"

fun jdiv :: "jsnum \<Rightarrow> jsnum \<Rightarrow> jsnum" where
  "jdiv (Num a) (Num b) =
     (if b \<noteq> 0 then Num (a / b) else if a = 0 then NaN else inf_of (0 < a))"
| "jdiv NaN _ = NaN"
| "jdiv _ NaN = NaN"
| "jdiv (Num a) PInf = Num 0"
| "jdiv (Num a) NInf = Num 0"
| "jdiv PInf (Num b) = inf_of (0 \<le> b)"
| "jdiv NInf (Num b) = inf_of (b < 0)"
| "jdiv PInf PInf = NaN"
| "jdiv PInf NInf = NaN"
| "jdiv NInf PInf = NaN"
| "jdiv NInf NInf = NaN"

fun jsqrt :: "jsnum \<Rightarrow> jsnum" where
  "jsqrt (Num a) = (if a < 0 then NaN else Num (sqrt a))"
| "jsqrt PInf = PInf"
| "jsqrt NInf = NaN"
| "jsqrt NaN = NaN"

fun jlt :: "jsnum \<Rightarrow> jsnum \<Rightarrow> bool" where
  "jlt (Num a) (Num b) = (a < b)"
| "jlt NaN _ = False"
| "jlt _ NaN = False"
| "jlt _ NInf = False"
| "jlt PInf _ = False"
| "jlt NInf _ = True"
| "jlt _ PInf = True"

definition jgt :: "jsnum \<Rightarrow> jsnum \<Rightarrow> bool" where
  "jgt a b = jlt b a"


section \<open>Motion utilities\<close>

text \<open>\<^verbatim>\<open>const lerp = (a, b, t) => a + (b - a) * t;\<close>\<close>

definition lerp :: "real \<Rightarrow> real \<Rightarrow> real \<Rightarrow> real" where
  "lerp a b t = a + (b - a) * t"

section \<open>Particle field: one particle's frame step\<close>

text \<open>
  A particle is the object literal that \<open>Particles.spawn\<close> pushes. Its fields
  \<open>x\<close> and \<open>y\<close> are written \<open>px\<close> and \<open>py\<close> here.
\<close>

record particle =
  px :: jsnum
  py :: jsnum
  vx :: jsnum
  vy :: jsnum
  radius :: jsnum
  alpha :: jsnum

text \<open>
  The body of the first \<open>for\<close> loop of \<open>Particles.loop\<close>, phase by phase.
  \<open>touch\<close> is the value of \<open>isTouchDevice()\<close>, \<open>m\<close> is \<open>this.mouse\<close>,
  \<open>w\<close> and \<open>h\<close> are the canvas width and height read at the top of \<open>loop\<close>,
  \<open>r1\<close> and \<open>r2\<close> are the two values \<open>Math.random()\<close> returns for the drift.
\<close>

definition repel :: "bool \<Rightarrow> real \<times> real \<Rightarrow> particle \<Rightarrow> particle" where
  "repel touch m p =
     (if touch then p
      else
        let dx = jsub (px p) (Num (fst m));
            dy = jsub (py p) (Num (snd m));
            distSq = jadd (jmul dx dx) (jmul dy dy)
        in if jlt distSq (Num 14400) then
             let dist = jsqrt distSq;
                 force = jdiv (jsub (Num 120) dist) (Num 120)
             in p\<lparr>vx := jadd (vx p) (jmul (jmul (jdiv dx dist) force) (Num 0.12)),
                  vy := jadd (vy p) (jmul (jmul (jdiv dy dist) force) (Num 0.12))\<rparr>
           else p)"

definition damp :: "particle \<Rightarrow> particle" where
  "damp p = p\<lparr>vx := jmul (vx p) (Num 0.985), vy := jmul (vy p) (Num 0.985)\<rparr>"

definition drift :: "real \<Rightarrow> real \<Rightarrow> particle \<Rightarrow> particle" where
  "drift r1 r2 p =
     p\<lparr>vx := jadd (vx p) (jmul (jsub (Num r1) (Num 0.5)) (Num 0.008)),
       vy := jadd (vy p) (jmul (jsub (Num r2) (Num 0.5)) (Num 0.008))\<rparr>"

definition integrate :: "particle \<Rightarrow> particle" where
  "integrate p = p\<lparr>px := jadd (px p) (vx p), py := jadd (py p) (vy p)\<rparr>"

definition wrap_x :: "nat \<Rightarrow> particle \<Rightarrow> particle" where
  "wrap_x w p =
     (let p1 = (if jlt (px p) (Num 0) then p\<lparr>px := Num (real w)\<rparr> else p)
      in if jgt (px p1) (Num (real w)) then p1\<lparr>px := Num 0\<rparr> else p1)"

definition wrap_y :: "nat \<Rightarrow> particle \<Rightarrow> particle" where
  "wrap_y h p =
     (let p1 = (if jlt (py p) (Num 0) then p\<lparr>py := Num (real h)\<rparr> else p)
      in if jgt (py p1) (Num (real h)) then p1\<lparr>py := Num 0\<rparr> else p1)"

definition wrap_edges :: "nat \<Rightarrow> nat \<Rightarrow> particle \<Rightarrow> particle" where
  "wrap_edges w h p = wrap_y h (wrap_x w p)"

definition step_particle ::
  "bool \<Rightarrow> real \<times> real \<Rightarrow> nat \<Rightarrow> nat \<Rightarrow> real \<Rightarrow> real \<Rightarrow> particle \<Rightarrow> particle" where
  "step_particle touch m w h r1 r2 p =
     wrap_edges w h (integrate (drift r1 r2 (damp (repel touch m p))))"


text \<open>The particle sits exactly on the pointer.\<close>

definition at_pointer :: "real \<times> real \<Rightarrow> particle \<Rightarrow> bool" where
  "at_pointer m p = (px p = Num (fst m) \<and> py p = Num (snd m))"


text \<open>
  The first \<open>for\<close> loop of \<open>Particles.loop\<close> over the whole collection. \<open>r\<close> is the
  sequence of values \<open>Math.random()\<close> returns and \<open>k\<close> the number of values consumed
  so far; every particle consumes two.
\<close>

fun particle_pass ::
  "bool \<Rightarrow> (nat \<Rightarrow> real) \<Rightarrow> real \<times> real \<Rightarrow> nat \<Rightarrow> nat \<Rightarrow> nat \<Rightarrow> particle list \<Rightarrow> particle list"
where
  "particle_pass touch r m w h k [] = []"
| "particle_pass touch r m w h k (p # ps) =
     step_particle touch m w h (r k) (r (Suc k)) p
       # particle_pass touch r m w h (k + 2) ps"

section \<open>Particle field: drawing and the connection pass\<close>

text \<open>
  What \<open>loop\<close> sends to the 2D context: \<open>clearRect(0, 0, width, height)\<close>, one filled
  circle per particle (centre, radius and the alpha of its fill style) and one stroked
  line per connection (both end points and the alpha of its stroke style).
\<close>

datatype draw =
    ClearRect nat nat
  | Arc jsnum jsnum jsnum jsnum
  | Line jsnum jsnum jsnum jsnum jsnum

definition arc :: "particle \<Rightarrow> draw" where
  "arc p = Arc (px p) (py p) (radius p) (alpha p)"

text \<open>\<^verbatim>\<open>connectionDistance: 100\<close>\<close>

definition connectionDistance :: jsnum where
  "connectionDistance = Num 100"

text \<open>The body of the inner loop of the connection pass, for the particles \<open>a\<close> and \<open>b\<close>.\<close>

definition link :: "particle \<Rightarrow> particle \<Rightarrow> draw list" where
  "link a b =
     (let cd = connectionDistance;
          cdSq = jmul cd cd;
          dx = jsub (px a) (px b);
          dy = jsub (py a) (py b);
          distSq = jadd (jmul dx dx) (jmul dy dy)
      in if jlt distSq cdSq then
           let dist = jsqrt distSq;
               al = jmul (jsub (Num 1) (jdiv dist cd)) (Num 0.1)
           in [Line (px a) (py a) (px b) (py b) al]
         else [])"

text \<open>\<^verbatim>\<open>for (let j = i + 1; j < len; j++)\<close>, entered with \<open>j\<close>.\<close>

function inner_pairs :: "particle list \<Rightarrow> nat \<Rightarrow> nat \<Rightarrow> draw list" where
  "inner_pairs ps i j =
     (if j < length ps then link (ps ! i) (ps ! j) @ inner_pairs ps i (Suc j) else [])"
  by pat_completeness auto
termination
  by (relation "measure (\<lambda>(ps, i, j). length ps - j)") auto

declare inner_pairs.simps [simp del]

text \<open>\<^verbatim>\<open>for (let i = 0; i < len; i++)\<close>, entered with \<open>i\<close>.\<close>

function outer_pairs :: "particle list \<Rightarrow> nat \<Rightarrow> draw list" where
  "outer_pairs ps i =
     (if i < length ps then inner_pairs ps i (Suc i) @ outer_pairs ps (Suc i) else [])"
  by pat_completeness auto
termination
  by (relation "measure (\<lambda>(ps, i). length ps - i)") auto

declare outer_pairs.simps [simp del]

text \<open>\<^verbatim>\<open>if (!isTouchDevice() && len < 80) { ... }\<close>\<close>

definition connections :: "bool \<Rightarrow> particle list \<Rightarrow> draw list" where
  "connections touch ps = (if \<not> touch \<and> length ps < 80 then outer_pairs ps 0 else [])"

text \<open>
  The index pairs \<open>(i, j)\<close> with \<open>i < j < n\<close> in the order of the two nested loops; the
  connection pass is compared with it below.
\<close>

definition index_pairs :: "nat \<Rightarrow> (nat \<times> nat) list" where
  "index_pairs n = concat (map (\<lambda>i. map (\<lambda>j. (i, j)) [Suc i..<n]) [0..<n])"

section \<open>Particle field: state and operations\<close>

text \<open>
  The browser as \<open>Particles\<close> sees it: the results of \<open>isTouchDevice()\<close> and
  \<open>prefersReducedMotion()\<close>, the element \<open>document.getElementById('particles')\<close> with
  its width and height (\<open>None\<close> when the page has none), whether \<open>getContext('2d')\<close>
  returns a context, the window's inner size and the values of \<open>Math.random()\<close>, each
  in \<open>[0, 1)\<close>.
\<close>

record env =
  isTouchDevice :: bool
  prefersReducedMotion :: bool
  element :: "(nat \<times> nat) option"
  context2d :: bool
  innerWidth :: nat
  innerHeight :: nat
  rnd :: "nat \<Rightarrow> real"

text \<open>
  The object \<open>Particles\<close>: \<open>canvas\<close> holds the canvas's width and height (\<open>None\<close> is
  \<open>null\<close>), \<open>ctx\<close> says that \<open>this.ctx\<close> is not \<open>null\<close>, \<open>raf\<close> is the last handle
  \<open>requestAnimationFrame\<close> returned. The remaining fields are the browser's side of the
  component: the handles of the requested callbacks \<open>() => this.loop()\<close> that have
  neither run nor been cancelled, the next handle to hand out (handles are positive),
  the number of random values consumed, everything painted so far, and which listeners
  \<open>init\<close> has installed (\<open>listening\<close>: resize and visibilitychange; \<open>tracking\<close>:
  mousemove).
\<close>

record field =
  canvas :: "(nat \<times> nat) option"
  ctx :: bool
  particles :: "particle list"
  mouse :: "real \<times> real"
  raf :: "nat option"
  running :: bool
  pending :: "nat list"
  next_handle :: nat
  randoms :: nat
  painted :: "draw list"
  listening :: bool
  tracking :: bool

definition Particles0 :: field where
  "Particles0 =
     \<lparr>canvas = None, ctx = False, particles = [], mouse = (- 9999, - 9999), raf = None,
      running = False, pending = [], next_handle = 1, randoms = 0, painted = [],
      listening = False, tracking = False\<rparr>"

text \<open>Reading a property of \<open>null\<close> throws a \<open>TypeError\<close>.\<close>

datatype error = TypeError

text \<open>\<open>resize()\<close>\<close>

definition resize :: "env \<Rightarrow> field \<Rightarrow> field" where
  "resize e s =
     (case canvas s of
        None \<Rightarrow> s
      | Some c \<Rightarrow> s\<lparr>canvas := Some (innerWidth e, innerHeight e)\<rparr>)"

text \<open>The object literal \<open>spawn\<close> pushes, built from six consecutive random values.\<close>

definition fresh :: "(nat \<Rightarrow> real) \<Rightarrow> nat \<Rightarrow> nat \<Rightarrow> nat \<Rightarrow> particle" where
  "fresh r w h k =
     \<lparr>px = jmul (Num (r k)) (Num (real w)),
      py = jmul (Num (r (k + 1))) (Num (real h)),
      vx = jmul (jsub (Num (r (k + 2))) (Num 0.5)) (Num 0.25),
      vy = jmul (jsub (Num (r (k + 3))) (Num 0.5)) (Num 0.25),
      radius = jadd (jmul (Num (r (k + 4))) (Num 1.8)) (Num 0.4),
      alpha = jadd (jmul (Num (r (k + 5))) (Num 0.35)) (Num 0.08)\<rparr>"

primrec spawn_loop :: "(nat \<Rightarrow> real) \<Rightarrow> nat \<Rightarrow> nat \<Rightarrow> nat \<Rightarrow> nat \<Rightarrow> particle list" where
  "spawn_loop r w h k 0 = []"
| "spawn_loop r w h k (Suc n) = fresh r w h k # spawn_loop r w h (k + 6) n"

text \<open>
  \<open>spawn(count)\<close>: the collection is emptied, then every iteration reads
  \<open>this.canvas.width\<close>, which throws when \<open>this.canvas\<close> is \<open>null\<close>.
\<close>

definition spawn :: "env \<Rightarrow> nat \<Rightarrow> field \<Rightarrow> error + field" where
  "spawn e count s =
     (if count = 0 then Inr (s\<lparr>particles := []\<rparr>)
      else case canvas s of
        None \<Rightarrow> Inl TypeError
      | Some (w, h) \<Rightarrow>
          Inr (s\<lparr>particles := spawn_loop (rnd e) w h (randoms s) count,
                 randoms := randoms s + 6 * count\<rparr>))"

text \<open>
  \<open>loop()\<close>: the guard, the destructuring of \<open>this.canvas\<close> (a \<open>TypeError\<close> on
  \<open>null\<close>), the particle pass with its drawing, the connection pass, and the request
  for the next frame.
\<close>

definition loop :: "env \<Rightarrow> field \<Rightarrow> error + field" where
  "loop e s =
     (if \<not> running s \<or> \<not> ctx s then Inr s
      else case canvas s of
        None \<Rightarrow> Inl TypeError
      | Some (w, h) \<Rightarrow>
          let ps = particle_pass (isTouchDevice e) (rnd e) (mouse s) w h (randoms s) (particles s);
              hnd = next_handle s
          in Inr (s\<lparr>particles := ps,
                    randoms := randoms s + 2 * length (particles s),
                    painted := painted s @ ClearRect w h # map arc ps @ connections (isTouchDevice e) ps,
                    raf := Some hnd,
                    pending := pending s @ [hnd],
                    next_handle := Suc hnd\<rparr>))"

text \<open>\<open>start()\<close> and \<open>stop()\<close>; \<open>cancelAnimationFrame\<close> drops the handle from the queue.\<close>

definition start :: "env \<Rightarrow> field \<Rightarrow> error + field" where
  "start e s = (if running s then Inr s else loop e (s\<lparr>running := True\<rparr>))"

definition stop :: "field \<Rightarrow> field" where
  "stop s =
     (let s1 = s\<lparr>running := False\<rparr>
      in case raf s1 of
           None \<Rightarrow> s1
         | Some hnd \<Rightarrow> if hnd = 0 then s1 else s1\<lparr>pending := removeAll hnd (pending s1)\<rparr>)"

text \<open>\<open>init()\<close>, with the adaptive particle count.\<close>

definition particle_count :: "env \<Rightarrow> nat" where
  "particle_count e =
     (let area = innerWidth e * innerHeight e
      in if isTouchDevice e then min 30 (area div 30000) else min 70 (area div 15000))"

definition init :: "env \<Rightarrow> field \<Rightarrow> error + field" where
  "init e s =
     (case element e of
        None \<Rightarrow> Inr (s\<lparr>canvas := None\<rparr>)
      | Some c \<Rightarrow>
          let s1 = s\<lparr>canvas := Some c\<rparr>
          in if prefersReducedMotion e then Inr s1
             else
               let s2 = resize e (s1\<lparr>ctx := context2d e\<rparr>);
                   count = particle_count e;
                   s3 = s2\<lparr>listening := True, tracking := (tracking s2 \<or> \<not> isTouchDevice e)\<rparr>
               in case spawn e count s3 of
                    Inl err \<Rightarrow> Inl err
                  | Inr s4 \<Rightarrow> start e s4)"

text \<open>
  An animation frame: the browser takes the queue of requested callbacks and runs each,
  here \<open>() => this.loop()\<close>. An exception ends that callback only.
\<close>

fun run_callbacks :: "env \<Rightarrow> nat list \<Rightarrow> field \<Rightarrow> field" where
  "run_callbacks e [] s = s"
| "run_callbacks e (hnd # hnds) s =
     (case loop e s of
        Inl err \<Rightarrow> run_callbacks e hnds s
      | Inr s' \<Rightarrow> run_callbacks e hnds s')"

definition frame :: "env \<Rightarrow> field \<Rightarrow> field" where
  "frame e s = run_callbacks e (pending s) (s\<lparr>pending := []\<rparr>)"

text \<open>
  The events the browser delivers to the component and the listeners \<open>init\<close> installs
  for them. A listener that throws leaves the state as it was when it threw; \<open>start\<close>
  throws before it changes anything but the running flag.
\<close>

datatype event = Resize | MouseMove real real | Visibility bool | AnimationFrame

fun deliver :: "env \<Rightarrow> field \<Rightarrow> event \<Rightarrow> field" where
  "deliver e s Resize = (if listening s then resize e s else s)"
| "deliver e s (MouseMove x y) = (if tracking s then s\<lparr>mouse := (x, y)\<rparr> else s)"
| "deliver e s (Visibility hidden) =
     (if listening s then
        (if hidden then stop s
         else case start e s of Inl err \<Rightarrow> s\<lparr>running := True\<rparr> | Inr s' \<Rightarrow> s')
      else s)"
| "deliver e s AnimationFrame = frame e s"

text \<open>
  The lifecycle of the component as a sequence of calls: \<open>start()\<close>, \<open>stop()\<close> and the
  browser running an animation frame. A \<open>start()\<close> that throws has set the running flag
  and nothing else.
\<close>

datatype call = Start | Stop | Frame

fun perform :: "env \<Rightarrow> field \<Rightarrow> call \<Rightarrow> field" where
  "perform e s Start = (case start e s of Inl err \<Rightarrow> s\<lparr>running := True\<rparr> | Inr s' \<Rightarrow> s')"
| "perform e s Stop = stop s"
| "perform e s Frame = frame e s"

section \<open>Pointer follower\<close>

text \<open>
  The object \<open>Cursor\<close>: \<open>el\<close> and \<open>glow\<close> say that the two elements exist,
  \<open>cmouse\<close> is its field \<open>mouse\<close>, and \<open>elTransform\<close> and \<open>glowTransform\<close> are the
  translations \<open>update\<close> writes to the two elements' styles. Pointer coordinates are
  finite, so the positions are real numbers.
\<close>

record cursor =
  el :: bool
  glow :: bool
  cmouse :: "real \<times> real"
  pos :: "real \<times> real"
  glowPos :: "real \<times> real"
  hovering :: bool
  hasMoved :: bool
  elTransform :: "(real \<times> real) option"
  glowTransform :: "(real \<times> real) option"

definition Cursor0 :: cursor where
  "Cursor0 =
     \<lparr>el = False, glow = False, cmouse = (- 100, - 100), pos = (- 100, - 100),
      glowPos = (- 100, - 100), hovering = False, hasMoved = False,
      elTransform = None, glowTransform = None\<rparr>"

text \<open>The \<open>mousemove\<close> listener of \<open>Cursor.init\<close>, for a sample \<open>(x, y)\<close>.\<close>

definition mousemove :: "real \<times> real \<Rightarrow> cursor \<Rightarrow> cursor" where
  "mousemove xy c =
     (let c1 = c\<lparr>cmouse := xy\<rparr>
      in if \<not> hasMoved c1 then c1\<lparr>hasMoved := True, pos := xy, glowPos := xy\<rparr> else c1)"

text \<open>\<open>Cursor.update()\<close>\<close>

definition update :: "cursor \<Rightarrow> cursor" where
  "update c =
     (if \<not> el c \<or> \<not> hasMoved c then c
      else
        let x = lerp (fst (pos c)) (fst (cmouse c)) 0.18;
            y = lerp (snd (pos c)) (snd (cmouse c)) 0.18;
            offset = (if hovering c then - 24 else - 4);
            c1 = c\<lparr>pos := (x, y), elTransform := Some (x + offset, y + offset)\<rparr>
        in if glow c1 then
             let gx = lerp (fst (glowPos c1)) (fst (cmouse c1)) 0.08;
                 gy = lerp (snd (glowPos c1)) (snd (cmouse c1)) 0.08
             in c1\<lparr>glowPos := (gx, gy), glowTransform := Some (gx - 250, gy - 250)\<rparr>
           else c1)"

section \<open>Shared frame scheduler\<close>

text \<open>
  The page as the shared loop sees it: the flag \<open>rafRunning\<close>, the number of requested
  callbacks \<open>tick\<close> waiting for the next frame, the pointer follower, and the number of
  calls of \<open>Cursor.update()\<close> made so far.
\<close>

record page =
  rafRunning :: bool
  queued :: nat
  follower :: cursor
  calls :: nat



definition tick :: "page \<Rightarrow> page" where
  "tick p =
     p\<lparr>follower := update (follower p), calls := Suc (calls p), queued := Suc (queued p)\<rparr>"

text \<open>An animation frame runs every callback that was waiting when it began.\<close>

definition shared_frame :: "page \<Rightarrow> page" where
  "shared_frame p = (tick ^^ queued p) (p\<lparr>queued := 0\<rparr>)"



section \<open>Vocabulary of the properties\<close>


text \<open>A random source that always returns one half: the drift it produces is zero.\<close>

definition steady :: "nat \<Rightarrow> real" where
  "steady n = 1 / 2"


definition pointer_particle :: particle where
  "pointer_particle =
     \<lparr>px = Num 100, py = Num 100, vx = Num 0, vy = Num 0, radius = Num 1, alpha = Num 0.2\<rparr>"



text \<open>The scheduler's invariant: one callback waits exactly when the loop is running.\<close>

definition page_ok :: "page \<Rightarrow> bool" where
  "page_ok p = (queued p = (if rafRunning p then 1 else 0))"






text \<open>Two particles 60 units apart.\<close>

definition near_pair :: "particle list" where
  "near_pair =
     [\<lparr>px = Num 100, py = Num 100, vx = Num 0, vy = Num 0, radius = Num 1, alpha = Num 0.2\<rparr>,
      \<lparr>px = Num 160, py = Num 100, vx = Num 0, vy = Num 0, radius = Num 1, alpha = Num 0.2\<rparr>]"




text \<open>A desktop browser whose random source always returns one half.\<close>

definition desktop :: env where
  "desktop =
     \<lparr>isTouchDevice = False, prefersReducedMotion = False, element = Some (300, 150),
      context2d = True, innerWidth = 1280, innerHeight = 720, rnd = steady\<rparr>"



text \<open>
  The field without a surface: no canvas, no context, no waiting frame callback and no
  listener installed.
\<close>

definition disabled :: "field \<Rightarrow> bool" where
  "disabled s =
     (canvas s = None \<and> \<not> ctx s \<and> pending s = [] \<and> \<not> listening s \<and> \<not> tracking s)"

text \<open>The desktop browser on a page without the canvas, and one whose canvas gives no 2D context.\<close>

definition no_canvas :: env where
  "no_canvas = desktop\<lparr>element := None\<rparr>"

definition no_context :: env where
  "no_context = desktop\<lparr>context2d := False\<rparr>"

section \<open>Finite numbers stay finite\<close>













section \<open>Wraparound\<close>




section \<open>The zero-distance case of the repulsion\<close>

text \<open>
  A particle exactly on the pointer has \<open>distSq = 0\<close>, passes the test
  \<open>distSq < 14400\<close> and divides \<open>0\<close> by \<open>0\<close>: its velocity and then its position
  become \<open>NaN\<close>, on every device with pointer repulsion.
\<close>

lemma zero_distance_nan:
  assumes "at_pointer m p"
  shows "vx (step_particle False m w h r1 r2 p) = NaN \<and> vy (step_particle False m w h r1 r2 p) = NaN \<and>
         px (step_particle False m w h r1 r2 p) = NaN \<and> py (step_particle False m w h r1 r2 p) = NaN"
proof -
  have j: "\<And>a. jadd a NaN = NaN" by (case_tac a) simp_all
  have r: "vx (repel False m p) = NaN \<and> vy (repel False m p) = NaN"
    using assms by (simp add: repel_def Let_def jsub_def at_pointer_def j)
  show ?thesis
    using r by (simp add: step_particle_def damp_def drift_def integrate_def wrap_edges_def
        wrap_x_def wrap_y_def Let_def jgt_def j)
qed

text \<open>
  C2: the zero-distance case is not guarded. For the particle at \<open>(100, 100)\<close> and the
  pointer at \<open>(100, 100)\<close>, one step leaves \<open>NaN\<close> in both velocity components and both
  coordinates.
\<close>

theorem zero_distance_unguarded:
  "vx (step_particle False (100, 100) 800 600 (1 / 2) (1 / 2) pointer_particle) = NaN \<and>
   vy (step_particle False (100, 100) 800 600 (1 / 2) (1 / 2) pointer_particle) = NaN \<and>
   px (step_particle False (100, 100) 800 600 (1 / 2) (1 / 2) pointer_particle) = NaN \<and>
   py (step_particle False (100, 100) 800 600 (1 / 2) (1 / 2) pointer_particle) = NaN"
  by (simp add: pointer_particle_def step_particle_def
      repel_def damp_def drift_def integrate_def wrap_edges_def wrap_x_def wrap_y_def
      Let_def jsub_def jgt_def)

section \<open>Shared frame scheduler: one callback chain\<close>



lemma page_ok_frame:
  assumes "page_ok p"
  shows "calls (shared_frame p) = (if rafRunning p then Suc (calls p) else calls p)"
  using assms by (auto simp: page_ok_def shared_frame_def tick_def)



section \<open>Pointer follower: first sample and smoothing\<close>

text \<open>
  C5. The first sample the \<open>mousemove\<close> listener receives (\<open>hasMoved\<close> is still false)
  becomes the raw sample and both lagged positions, exactly; an \<open>update()\<close> right
  after it leaves both where they are.
\<close>

theorem first_sample_snap:
  assumes "\<not> hasMoved c"
  shows "cmouse (mousemove xy c) = xy \<and> pos (mousemove xy c) = xy \<and>
         glowPos (mousemove xy c) = xy \<and> hasMoved (mousemove xy c) \<and>
         pos (update (mousemove xy c)) = xy \<and> glowPos (update (mousemove xy c)) = xy"
  using assms by (simp add: mousemove_def update_def Let_def lerp_def)

theorem first_sample_snap_witness:
  "\<not> hasMoved Cursor0 \<and> pos Cursor0 = (- 100, - 100) \<and>
   pos (mousemove (300, 200) Cursor0) = (300, 200) \<and>
   glowPos (mousemove (300, 200) Cursor0) = (300, 200)"
  using first_sample_snap [of Cursor0 "(300, 200)"] by (simp add: Cursor0_def)















section \<open>Damping\<close>











section \<open>The connection pass\<close>

lemma inner_pairs_eq:
  "inner_pairs ps i j = concat (map (\<lambda>j'. link (ps ! i) (ps ! j')) [j..<length ps])"
proof (induction ps i j rule: inner_pairs.induct)
  case (1 ps i j)
  show ?case
  proof (cases "j < length ps")
    case True
    then have "[j..<length ps] = j # [Suc j..<length ps]"
      by (simp add: upt_conv_Cons)
    with True 1 show ?thesis
      by (subst inner_pairs.simps) simp
  next
    case False
    then show ?thesis
      by (subst inner_pairs.simps) simp
  qed
qed

lemma outer_pairs_eq:
  "outer_pairs ps i = concat (map (\<lambda>i'. inner_pairs ps i' (Suc i')) [i..<length ps])"
proof (induction ps i rule: outer_pairs.induct)
  case (1 ps i)
  show ?case
  proof (cases "i < length ps")
    case True
    then have "[i..<length ps] = i # [Suc i..<length ps]"
      by (simp add: upt_conv_Cons)
    with True 1 show ?thesis
      by (subst outer_pairs.simps) simp
  next
    case False
    then show ?thesis
      by (subst outer_pairs.simps) simp
  qed
qed

lemma concat_rows:
  "concat (map (\<lambda>i. concat (map (g i) (f i))) xs) =
   concat (map (\<lambda>(i, j). g i j) (concat (map (\<lambda>i. map (Pair i) (f i)) xs)))"
  by (induction xs) (simp_all add: comp_def)

lemma outer_pairs_index_pairs:
  "outer_pairs ps 0 = concat (map (\<lambda>(i, j). link (ps ! i) (ps ! j)) (index_pairs (length ps)))"
  unfolding outer_pairs_eq inner_pairs_eq index_pairs_def
  by (rule concat_rows [of "\<lambda>i j. link (ps ! i) (ps ! j)" "\<lambda>i. [Suc i..<length ps]"])

lemma set_index_pairs: "set (index_pairs n) = {(i, j). i < j \<and> j < n}"
proof -
  have "(a, b) \<in> set (index_pairs n) \<longleftrightarrow> a < b \<and> b < n" for a b
  proof
    assume "(a, b) \<in> set (index_pairs n)"
    then show "a < b \<and> b < n"
      by (auto simp: index_pairs_def)
  next
    assume ab: "a < b \<and> b < n"
    then have "a \<in> {0..<n}" "(a, b) \<in> Pair a ` {Suc a..<n}"
      by auto
    then show "(a, b) \<in> set (index_pairs n)"
      unfolding index_pairs_def by (simp add: image_iff)
  qed
  then show ?thesis
    by auto
qed

lemma distinct_rows:
  "distinct xs \<Longrightarrow> distinct (concat (map (\<lambda>i. map (Pair i) [Suc i..<n]) xs))"
  by (induction xs) (auto simp: distinct_map inj_on_def)

lemma distinct_index_pairs: "distinct (index_pairs n)"
  unfolding index_pairs_def by (rule distinct_rows) simp

lemma link_finite:
  assumes "px a = Num ax" "py a = Num ay" "px b = Num bx" "py b = Num by"
  shows "link a b =
     (if sqrt ((ax - bx)\<^sup>2 + (ay - by)\<^sup>2) < 100
      then [Line (Num ax) (Num ay) (Num bx) (Num by)
              (Num ((1 - sqrt ((ax - bx)\<^sup>2 + (ay - by)\<^sup>2) / 100) * 0.1))]
      else [])"
proof -
  define s where "s = (ax - bx)\<^sup>2 + (ay - by)\<^sup>2"
  have s: "(ax - bx) * (ax - bx) + (ay - by) * (ay - by) = s"
    by (simp add: s_def power2_eq_square)
  have "0 \<le> s"
    by (simp add: s_def)
  then have "sqrt s < 100 \<longleftrightarrow> s < 10000"
    using real_sqrt_less_iff [of s 10000] real_sqrt_abs [of 100]
    by (simp add: power2_eq_square)
  moreover have "\<not> s < 0"
    using \<open>0 \<le> s\<close> by simp
  ultimately show ?thesis
    using assms
    by (simp add: link_def Let_def connectionDistance_def jsub_def s s_def [symmetric])
qed

text \<open>
  C8. The connection pass draws nothing on a touch device and nothing once there are 80
  particles or more (so none with 81). Otherwise it draws, in the order of the index
  pairs \<open>(i, j)\<close> with \<open>i < j < len\<close>, each taken once, what the loop body draws for the
  pair; for two particles with finite positions that is one line with opacity
  \<open>(1 - dist / 100) * 0.1\<close> when their distance \<open>dist\<close> is below 100, and nothing
  otherwise.
\<close>

theorem connection_pass:
  "(touch \<longrightarrow> connections touch ps = []) \<and>
   (80 \<le> length ps \<longrightarrow> connections touch ps = []) \<and>
   (\<not> touch \<and> length ps < 80 \<longrightarrow>
      connections touch ps =
        concat (map (\<lambda>(i, j). link (ps ! i) (ps ! j)) (index_pairs (length ps)))) \<and>
   distinct (index_pairs (length ps)) \<and>
   set (index_pairs (length ps)) = {(i, j). i < j \<and> j < length ps} \<and>
   (px a = Num ax \<and> py a = Num ay \<and> px b = Num bx \<and> py b = Num by \<longrightarrow>
      link a b =
        (if sqrt ((ax - bx)\<^sup>2 + (ay - by)\<^sup>2) < 100
         then [Line (Num ax) (Num ay) (Num bx) (Num by)
                 (Num ((1 - sqrt ((ax - bx)\<^sup>2 + (ay - by)\<^sup>2) / 100) * 0.1))]
         else []))"
proof -
  have "\<not> touch \<and> length ps < 80 \<longrightarrow>
      connections touch ps =
        concat (map (\<lambda>(i, j). link (ps ! i) (ps ! j)) (index_pairs (length ps)))"
    by (simp add: connections_def outer_pairs_index_pairs)
  moreover have "px a = Num ax \<and> py a = Num ay \<and> px b = Num bx \<and> py b = Num by \<longrightarrow>
      link a b =
        (if sqrt ((ax - bx)\<^sup>2 + (ay - by)\<^sup>2) < 100
         then [Line (Num ax) (Num ay) (Num bx) (Num by)
                 (Num ((1 - sqrt ((ax - bx)\<^sup>2 + (ay - by)\<^sup>2) / 100) * 0.1))]
         else [])"
    using link_finite [of a ax ay b bx "by"] by blast
  moreover have "touch \<longrightarrow> connections touch ps = []"
    and "80 \<le> length ps \<longrightarrow> connections touch ps = []"
    by (simp_all add: connections_def)
  ultimately show ?thesis
    using distinct_index_pairs [of "length ps"] set_index_pairs [of "length ps"]
    by (intro conjI)
qed

theorem connection_pass_witness:
  "connections True near_pair = [] \<and>
   length (replicate 81 pointer_particle) = 81 \<and>
   connections False (replicate 81 pointer_particle) = [] \<and>
   index_pairs (length near_pair) = [(0, 1)] \<and>
   connections False near_pair = [Line (Num 100) (Num 100) (Num 160) (Num 100) (Num 0.04)]"
proof -
  have len: "length near_pair = 2"
    by (simp add: near_pair_def)
  have ip: "index_pairs 2 = [(0, 1)]"
    by (simp add: index_pairs_def upt_rec numeral_2_eq_2)
  have root: "sqrt 3600 = 60"
    using real_sqrt_abs [of 60] by simp
  have a: "connections True near_pair = []"
    using connection_pass [of True near_pair] by simp
  have b: "connections False (replicate 81 pointer_particle) = []"
    using connection_pass [of False "replicate 81 pointer_particle"] by simp
  note c = connection_pass [of False near_pair "near_pair ! 0" 100 100 "near_pair ! 1" 160 100]
  have l: "link (near_pair ! 0) (near_pair ! 1) =
      [Line (Num 100) (Num 100) (Num 160) (Num 100) (Num 0.04)]"
    using c by (simp add: near_pair_def root)
  have "connections False near_pair =
      concat (map (\<lambda>(i, j). link (near_pair ! i) (near_pair ! j)) (index_pairs (length near_pair)))"
    using c by (simp add: len)
  with l have d: "connections False near_pair =
      [Line (Num 100) (Num 100) (Num 160) (Num 100) (Num 0.04)]"
    by (simp add: len ip)
  show ?thesis
    using a b d by (simp add: len ip)
qed

section \<open>Spawning\<close>






section \<open>Starting and stopping the particle loop\<close>


















section \<open>The missing rendering surface\<close>

lemma disabled_calls:
  assumes "disabled s"
  shows "resize e s = s" and "loop e s = Inr s" and "frame e s = s"
    and "stop s = s\<lparr>running := False\<rparr>" and "start e s = Inr (s\<lparr>running := True\<rparr>)"
    and "spawn e 0 s = Inr (s\<lparr>particles := []\<rparr>)"
    and "element e = None \<Longrightarrow> init e s = Inr s"
  using assms
  by (auto simp: disabled_def resize_def loop_def frame_def stop_def start_def spawn_def
      init_def Let_def split: option.splits)

lemma disabled_deliver:
  assumes "disabled s"
  shows "deliver e s ev = s"
  using assms disabled_calls(3) [OF assms]
  by (cases ev) (simp_all add: disabled_def)

lemma disabled_events:
  assumes "disabled s"
  shows "foldl (deliver e) s evs = s"
  using assms by (induction evs) (simp_all add: disabled_deliver)

lemma disabled_perform:
  assumes "disabled s"
  shows "disabled (perform e s c) \<and> particles (perform e s c) = particles s \<and>
         painted (perform e s c) = painted s \<and> raf (perform e s c) = raf s"
  using assms disabled_calls(3,5) [OF assms, of e] disabled_calls(4) [OF assms]
  by (cases c) (simp_all add: disabled_def)

lemma disabled_run:
  assumes "disabled s"
  shows "disabled (foldl (perform e) s cs) \<and> particles (foldl (perform e) s cs) = particles s \<and>
         painted (foldl (perform e) s cs) = painted s \<and> raf (foldl (perform e) s cs) = raf s"
  using assms
proof (induction cs arbitrary: s)
  case Nil
  then show ?case by simp
next
  case (Cons c cs)
  from disabled_perform [OF Cons.prems, of e c] Cons.IH [of "perform e s c"]
  show ?case by simp
qed

lemma length_spawn_loop: "length (spawn_loop r w h k n) = n"
  by (induction n arbitrary: k) simp_all

lemma init_without_context:
  assumes "element e = Some c" "\<not> prefersReducedMotion e" "\<not> context2d e"
  shows "\<exists>ps. init e Particles0 =
           Inr (Particles0\<lparr>canvas := Some (innerWidth e, innerHeight e), particles := ps,
                  running := True, randoms := 6 * particle_count e, listening := True,
                  tracking := \<not> isTouchDevice e\<rparr>) \<and>
         length ps = particle_count e"
proof (cases "particle_count e = 0")
  case True
  with assms show ?thesis
    by (simp add: init_def resize_def spawn_def start_def loop_def Particles0_def Let_def)
next
  case False
  have "length (spawn_loop (rnd e) (innerWidth e) (innerHeight e) 0 (particle_count e)) =
      particle_count e"
    by (rule length_spawn_loop)
  with False assms show ?thesis
    by (simp add: init_def resize_def spawn_def start_def loop_def Particles0_def Let_def)
qed

text \<open>
  C9, as amended. When the page has no canvas element, \<open>init\<close> changes nothing and
  installs no listener. In that state \<open>init\<close>, \<open>resize\<close>, \<open>loop\<close>, an animation frame
  and every browser event leave the field as it is and do not throw; \<open>stop\<close> and
  \<open>start\<close> only clear and set the running flag (\<open>start\<close> neither steps, paints nor
  requests a frame); \<open>spawn(0)\<close> only empties the collection; and whatever sequence of
  \<open>start\<close>, \<open>stop\<close> and frames follows, the field stays without a surface, with its
  particles and its painting unchanged. When the canvas exists and only the 2D context
  is missing, \<open>init\<close> still sizes the canvas, installs the listeners, spawns the
  particles and sets the running flag; without a context \<open>loop\<close> changes nothing.
\<close>

theorem missing_surface:
  "(element e = None \<longrightarrow> init e Particles0 = Inr Particles0 \<and> disabled Particles0) \<and>
   (disabled s \<longrightarrow>
      (element e = None \<longrightarrow> init e s = Inr s) \<and>
      resize e s = s \<and> loop e s = Inr s \<and> frame e s = s \<and>
      stop s = s\<lparr>running := False\<rparr> \<and> start e s = Inr (s\<lparr>running := True\<rparr>) \<and>
      spawn e 0 s = Inr (s\<lparr>particles := []\<rparr>) \<and>
      foldl (deliver e) s evs = s \<and>
      disabled (foldl (perform e) s cs) \<and>
      particles (foldl (perform e) s cs) = particles s \<and>
      painted (foldl (perform e) s cs) = painted s) \<and>
   (element e = Some c \<and> \<not> prefersReducedMotion e \<and> \<not> context2d e \<longrightarrow>
      (\<exists>ps. init e Particles0 =
           Inr (Particles0\<lparr>canvas := Some (innerWidth e, innerHeight e), particles := ps,
                  running := True, randoms := 6 * particle_count e, listening := True,
                  tracking := \<not> isTouchDevice e\<rparr>) \<and>
         length ps = particle_count e)) \<and>
   (\<not> ctx s \<longrightarrow> loop e s = Inr s)"
proof -
  have d0: "disabled Particles0"
    by (simp add: disabled_def Particles0_def)
  have a: "element e = None \<longrightarrow> init e Particles0 = Inr Particles0 \<and> disabled Particles0"
    using disabled_calls(7) [OF d0, of e] d0 by simp
  have b: "disabled s \<longrightarrow>
      (element e = None \<longrightarrow> init e s = Inr s) \<and>
      resize e s = s \<and> loop e s = Inr s \<and> frame e s = s \<and>
      stop s = s\<lparr>running := False\<rparr> \<and> start e s = Inr (s\<lparr>running := True\<rparr>) \<and>
      spawn e 0 s = Inr (s\<lparr>particles := []\<rparr>) \<and>
      foldl (deliver e) s evs = s \<and>
      disabled (foldl (perform e) s cs) \<and>
      particles (foldl (perform e) s cs) = particles s \<and>
      painted (foldl (perform e) s cs) = painted s"
  proof
    assume d: "disabled s"
    show "(element e = None \<longrightarrow> init e s = Inr s) \<and>
      resize e s = s \<and> loop e s = Inr s \<and> frame e s = s \<and>
      stop s = s\<lparr>running := False\<rparr> \<and> start e s = Inr (s\<lparr>running := True\<rparr>) \<and>
      spawn e 0 s = Inr (s\<lparr>particles := []\<rparr>) \<and>
      foldl (deliver e) s evs = s \<and>
      disabled (foldl (perform e) s cs) \<and>
      particles (foldl (perform e) s cs) = particles s \<and>
      painted (foldl (perform e) s cs) = painted s"
      using disabled_calls [OF d] disabled_events [OF d] disabled_run [OF d, of e cs]
      by (intro conjI impI) simp_all
  qed
  have c: "element e = Some c \<and> \<not> prefersReducedMotion e \<and> \<not> context2d e \<longrightarrow>
      (\<exists>ps. init e Particles0 =
           Inr (Particles0\<lparr>canvas := Some (innerWidth e, innerHeight e), particles := ps,
                  running := True, randoms := 6 * particle_count e, listening := True,
                  tracking := \<not> isTouchDevice e\<rparr>) \<and>
         length ps = particle_count e)"
    using init_without_context [of e c] by blast
  have "\<not> ctx s \<longrightarrow> loop e s = Inr s"
    by (simp add: loop_def)
  with a b c show ?thesis
    by (intro conjI)
qed

theorem missing_surface_witness:
  "element no_canvas = None \<and> init no_canvas Particles0 = Inr Particles0 \<and>
   disabled Particles0 \<and>
   foldl (deliver no_canvas) Particles0
     [Resize, MouseMove 10 20, Visibility True, Visibility False, AnimationFrame] = Particles0 \<and>
   particles (foldl (perform no_canvas) Particles0 [Start, Frame, Stop, Start]) = [] \<and>
   painted (foldl (perform no_canvas) Particles0 [Start, Frame, Stop, Start]) = [] \<and>
   element no_context = Some (300, 150) \<and> \<not> prefersReducedMotion no_context \<and>
   \<not> context2d no_context \<and>
   (\<exists>ps. init no_context Particles0 =
      Inr (Particles0\<lparr>canvas := Some (1280, 720), particles := ps, running := True,
             randoms := 366, listening := True, tracking := True\<rparr>) \<and> length ps = 61)"
proof -
  have e1: "element no_canvas = None"
    by (simp add: no_canvas_def)
  have e2: "element no_context = Some (300, 150)" "\<not> prefersReducedMotion no_context"
    "\<not> context2d no_context"
    by (simp_all add: no_context_def desktop_def)
  have e3: "innerWidth no_context = 1280" "innerHeight no_context = 720"
    "particle_count no_context = 61" "isTouchDevice no_context = False"
    by (simp_all add: no_context_def desktop_def particle_count_def)
  note t1 = missing_surface [of no_canvas Particles0
      "[Resize, MouseMove 10 20, Visibility True, Visibility False, AnimationFrame]"
      "[Start, Frame, Stop, Start]"]
  note t2 = missing_surface [where e = no_context and c = "(300, 150)"]
  have d: "init no_canvas Particles0 = Inr Particles0" "disabled Particles0"
    using t1 e1 by blast+
  have f: "foldl (deliver no_canvas) Particles0
     [Resize, MouseMove 10 20, Visibility True, Visibility False, AnimationFrame] = Particles0"
    "particles (foldl (perform no_canvas) Particles0 [Start, Frame, Stop, Start]) = particles Particles0"
    "painted (foldl (perform no_canvas) Particles0 [Start, Frame, Stop, Start]) = painted Particles0"
    using t1 d(2) by blast+
  have g: "\<exists>ps. init no_context Particles0 =
      Inr (Particles0\<lparr>canvas := Some (innerWidth no_context, innerHeight no_context),
             particles := ps, running := True,
             randoms := 6 * particle_count no_context, listening := True,
             tracking := \<not> isTouchDevice no_context\<rparr>) \<and> length ps = particle_count no_context"
    using t2 e2 by blast
  have z: "particles Particles0 = []" "painted Particles0 = []"
    by (simp_all add: Particles0_def)
  show ?thesis
    using e1 e2 d f g unfolding e3 z by simp
qed

text \<open>
  C9 as stated fails: without a canvas \<open>spawn(1)\<close> throws a \<open>TypeError\<close> (it reads
  \<open>this.canvas.width\<close>), and \<open>start()\<close> sets the running flag.
\<close>

theorem missing_canvas_counterexample:
  "element no_canvas = None \<and> init no_canvas Particles0 = Inr Particles0 \<and>
   spawn no_canvas 1 Particles0 = Inl TypeError \<and>
   start no_canvas Particles0 = Inr (Particles0\<lparr>running := True\<rparr>) \<and>
   Particles0\<lparr>running := True\<rparr> \<noteq> Particles0"
  by (simp add: no_canvas_def desktop_def init_def spawn_def start_def loop_def Particles0_def)

end
